theory Spec2Isabelle
  imports Complex_Main
begin

section \<open>Data model\<close>

text \<open>
  The action tags of \<^verbatim>\<open>PlayerPanel.tsx\<close>:
  \<^verbatim>\<open>type StatType = "points" | "assists" | "rebounds" | "turnovers" | "goodDecisions" | "badDecisions"\<close>.
  The constructors are capitalised, because the lower-case names are the fields of
  \<^verbatim>\<open>TimelineStats\<close> below.
\<close>

datatype StatType = Points | Assists | Rebounds | Turnovers | GoodDecisions | BadDecisions

datatype SAALevel = low | moderate | high

text \<open>
  \<^verbatim>\<open>SurveyResponses\<close> of \<^verbatim>\<open>SurveyModal.tsx\<close>. The three ratings are set by radio
  buttons whose values are the integers 1 to 9 (default 5), so the fields are integers.
\<close>

record SurveyResponses =
  emotionalArousal :: int
  momentum :: int
  flow :: int

section \<open>Scoring functions (\<^verbatim>\<open>calculationUtils.ts\<close>)\<close>

text \<open>
  JavaScript numbers are modelled as exact numbers: \<open>int\<close> where the code only adds
  and compares whole numbers, \<open>real\<close> where it multiplies by decimal constants or divides.
  \<^verbatim>\<open>Math.round(x)\<close> is \<open>\<lfloor>x + 1/2\<rfloor>\<close> (halves round up).
\<close>

definition js_round :: "real \<Rightarrow> int" where
  "js_round x = \<lfloor>x + 1 / 2\<rfloor>"

text \<open>The table \<^verbatim>\<open>weights\<close> of \<^verbatim>\<open>calculatePerformanceScore\<close>.\<close>

fun weights :: "StatType \<Rightarrow> int" where
  "weights Points = 10"
| "weights Assists = 8"
| "weights Rebounds = 6"
| "weights Turnovers = - 5"
| "weights GoodDecisions = 7"
| "weights BadDecisions = - 6"

text \<open>
  \<^verbatim>\<open>const rawScore = actions.reduce((total, action) => total + weights[action], 0);\<close>
  \<^verbatim>\<open>return Math.max(0, Math.min(100, rawScore + 50));\<close>
\<close>

definition calculatePerformanceScore :: "StatType list \<Rightarrow> int" where
  "calculatePerformanceScore actions =
     (let rawScore = foldl (\<lambda>total action. total + weights action) 0 actions
      in max 0 (min 100 (rawScore + 50)))"

text \<open>
  \<^verbatim>\<open>calculateSAAValue\<close> of \<^verbatim>\<open>calculationUtils.ts\<close> (the U-shaped flow model with
  momentum moderation). \<^verbatim>\<open>Math.random()\<close> is the parameter \<open>random\<close>, a number in
  \<open>[0, 1)\<close>. The returned object \<^verbatim>\<open>{ value, level }\<close> is the pair \<open>(value, level)\<close>.
\<close>

definition calculateSAAValue :: "SurveyResponses \<Rightarrow> real \<Rightarrow> int \<times> SAALevel" where
  "calculateSAAValue responses random =
     (let baseValue = 35;
          arousalContribution = real_of_int (emotionalArousal responses) * 3;
          flowContribution =
            (if flow responses < 4 then real_of_int ((4 - flow responses) * 3)
             else if flow responses > 7 then real_of_int ((flow responses - 7) * 2)
             else real_of_int (- ((flow responses - 4) * 2)));
          momentumFactor = 1.5 - real_of_int (momentum responses) * 0.1;
          biologicalVariability = random * 8 - 4;
          calculatedValue =
            baseValue + arousalContribution * momentumFactor + flowContribution
              + biologicalVariability;
          calculatedValue = js_round (max 30 (min 160 calculatedValue));
          level = (if calculatedValue < 50 then low
                   else if calculatedValue > 80 then high else moderate)
      in (calculatedValue, level))"

text \<open>
  The second \<^verbatim>\<open>calculateSAAValue\<close>, local to \<^verbatim>\<open>EventBlockGenerator\<close> (the simple
  weighted sum). It rounds but does not clamp.
\<close>

definition calculateSAAValue_generator :: "SurveyResponses \<Rightarrow> real \<Rightarrow> int \<times> SAALevel" where
  "calculateSAAValue_generator responses random =
     (let baseValue = 30;
          arousalContribution = real_of_int (emotionalArousal responses) * 2;
          momentumContribution = real_of_int (momentum responses) * 1.5;
          flowContribution = real_of_int (flow responses) * 3;
          randomFactor = random * 10 - 5;
          calculatedValue =
            js_round (baseValue + arousalContribution + momentumContribution
                        + flowContribution + randomFactor);
          level = (if calculatedValue < 50 then low
                   else if calculatedValue > 80 then high else moderate)
      in (calculatedValue, level))"

text \<open>
  \<^verbatim>\<open>normalizeValue\<close>:
  \<^verbatim>\<open>return ((value - fromMin) / (fromMax - fromMin)) * (toMax - toMin) + toMin;\<close>
  The arguments are numbers in exact arithmetic. \<open>None\<close> stands for a division by
  zero only (in JavaScript the quotient is then \<^verbatim>\<open>Infinity\<close>, \<^verbatim>\<open>-Infinity\<close> or
  \<^verbatim>\<open>NaN\<close>, and nothing is raised); \<open>Some\<close> carries the value of the expression in
  exact arithmetic. Rounding, overflow and arguments that are no finite numbers are outside
  this model, so \<open>Some\<close> says nothing about the result being finite in double
  precision. The function is used below at the constant source range 1 to 9 only.
\<close>

definition normalizeValue :: "real \<Rightarrow> real \<Rightarrow> real \<Rightarrow> real \<Rightarrow> real \<Rightarrow> real option" where
  "normalizeValue v fromMin fromMax toMin toMax =
     (if fromMax - fromMin = 0 then None
      else Some (((v - fromMin) / (fromMax - fromMin)) * (toMax - toMin) + toMin))"

text \<open>
  \<^verbatim>\<open>calculatePsychologicalState\<close>. Both calls of \<open>normalizeValue\<close> have the constant
  source range 1 to 9; the branch for a division by zero is there for totality only.
\<close>

definition calculatePsychologicalState :: "SurveyResponses \<Rightarrow> real option" where
  "calculatePsychologicalState responses =
     (let izofScore =
            (if emotionalArousal responses \<ge> 4 \<and> emotionalArousal responses \<le> 7 then 100
             else 100 - \<bar>5.5 - real_of_int (emotionalArousal responses)\<bar> * 15)
      in case (normalizeValue (real_of_int (momentum responses)) 1 9 30 100,
               normalizeValue (real_of_int (flow responses)) 1 9 30 100) of
           (Some momentumScore, Some flowScore) \<Rightarrow>
             (let compositeScore = izofScore * 0.4 + momentumScore * 0.3 + flowScore * 0.3
              in Some (max 0 (min 100 compositeScore)))
         | _ \<Rightarrow> None)"

section \<open>Efficiency (\<^verbatim>\<open>calculateHollingerScore\<close> of \<^verbatim>\<open>PerformanceTable.tsx\<close>)\<close>

text \<open>
  \<^verbatim>\<open>TimelineStats\<close>: the six fields are counts of actions (each starts at 0 and is
  incremented once per action of its type), hence natural numbers.
\<close>

record TimelineStats =
  timePoint :: nat
  quarter :: nat
  points :: nat
  assists :: nat
  rebounds :: nat
  turnovers :: nat
  goodDecisions :: nat
  badDecisions :: nat
  performance :: int

record HollingerScore =
  gameScore :: real
  maxPossibleScore :: real
  efficiencyPercentage :: "real option"
  hasActions :: bool

text \<open>The local constants \<^verbatim>\<open>totalActions\<close>, \<^verbatim>\<open>positiveScore\<close>, \<^verbatim>\<open>negativeScore\<close>.\<close>

definition totalActions :: "TimelineStats \<Rightarrow> nat" where
  "totalActions stats =
     points stats + assists stats + rebounds stats + turnovers stats
       + goodDecisions stats + badDecisions stats"

definition positiveScore :: "TimelineStats \<Rightarrow> real" where
  "positiveScore stats =
     real (points stats) + 0.7 * real (rebounds stats) + 0.7 * real (assists stats)
       + 0.3 * real (goodDecisions stats)"

definition negativeScore :: "TimelineStats \<Rightarrow> real" where
  "negativeScore stats = 1.0 * real (turnovers stats) + 0.7 * real (badDecisions stats)"

definition calculateHollingerScore :: "TimelineStats \<Rightarrow> HollingerScore" where
  "calculateHollingerScore stats =
     (if totalActions stats = 0
      then \<lparr>gameScore = 0, maxPossibleScore = 0, efficiencyPercentage = None,
            hasActions = False\<rparr>
      else
        (let score = positiveScore stats - negativeScore stats;
             SIGNIFICANT_CONTRIBUTION_THRESHOLD = 4.0;
             scaleFactor = min 1.0 (real (totalActions stats) / 8.0);
             efficiency =
               (if score \<le> 0 then max 0 (40 + score * 10)
                else if score < SIGNIFICANT_CONTRIBUTION_THRESHOLD
                then (let ratio = score / SIGNIFICANT_CONTRIBUTION_THRESHOLD;
                          efficiency = 40 + ratio * 40
                      in 40 + (efficiency - 40) * scaleFactor)
                else min 100 (80 + (score - SIGNIFICANT_CONTRIBUTION_THRESHOLD) * 5));
             efficiency = real_of_int (js_round efficiency);
             efficiency =
               (if totalActions stats = 1 \<and> score > 0 then min efficiency 80 else efficiency);
             efficiency =
               (if positiveScore stats = 0 \<and> negativeScore stats > 0
                then max 0 (min 30 (30 - negativeScore stats * 10))
                else efficiency)
         in \<lparr>gameScore = score,
             maxPossibleScore = positiveScore stats + negativeScore stats,
             efficiencyPercentage = Some efficiency, hasActions = True\<rparr>))"

text \<open>
  A well-formed biometric result: the value lies in \<open>[30, 160]\<close> and the level is the
  one the thresholds 50 and 80 give it.
\<close>

definition saa_result_ok :: "int \<times> SAALevel \<Rightarrow> bool" where
  "saa_result_ok res =
     (30 \<le> fst res \<and> fst res \<le> 160
      \<and> (snd res = low) = (fst res < 50)
      \<and> (snd res = high) = (fst res > 80)
      \<and> (snd res = moderate) = (50 \<le> fst res \<and> fst res \<le> 80))"

section \<open>Game clock (\<^verbatim>\<open>GameClock.tsx\<close>)\<close>

datatype PlaybackMode = live | fast | manual

record GameClockState =
  currentQuarter :: int
  timeRemaining :: int
  clockRunning :: bool
  mode :: PlaybackMode

definition QUARTER_TIME :: int where
  "QUARTER_TIME = 600"

text \<open>The initial value of \<^verbatim>\<open>useState<GameClockState>\<close>.\<close>

definition initialClockState :: GameClockState where
  "initialClockState =
     \<lparr>currentQuarter = 1, timeRemaining = QUARTER_TIME, clockRunning = False, mode = live\<rparr>"

text \<open>
  The state update of the interval callback. The callback reads the mode of the render
  that installed the interval; the effect installs a new interval whenever the mode
  changes, so this is the mode of the state the callback updates.
\<close>

definition tick :: "GameClockState \<Rightarrow> GameClockState" where
  "tick prevState =
     (let decrement = (if mode prevState = live then 1 else 5)
      in if timeRemaining prevState \<le> 0 then prevState\<lparr>clockRunning := False\<rparr>
         else prevState\<lparr>timeRemaining := max 0 (timeRemaining prevState - decrement)\<rparr>)"

definition startClock :: "GameClockState \<Rightarrow> GameClockState" where
  "startClock prevState = prevState\<lparr>clockRunning := True\<rparr>"

definition pauseClock :: "GameClockState \<Rightarrow> GameClockState" where
  "pauseClock prevState = prevState\<lparr>clockRunning := False\<rparr>"

definition nextQuarter :: "GameClockState \<Rightarrow> GameClockState" where
  "nextQuarter prevState =
     (let nextQuarterNum =
            (if currentQuarter prevState \<ge> 4 then 4 else currentQuarter prevState + 1)
      in prevState\<lparr>currentQuarter := nextQuarterNum, timeRemaining := QUARTER_TIME,
                    clockRunning := False\<rparr>)"

definition changeMode :: "PlaybackMode \<Rightarrow> GameClockState \<Rightarrow> GameClockState" where
  "changeMode m prevState = prevState\<lparr>mode := m, clockRunning := False\<rparr>"

definition advanceManualTime :: "GameClockState \<Rightarrow> GameClockState" where
  "advanceManualTime clockState =
     (if mode clockState = manual
      then clockState\<lparr>timeRemaining := max 0 (timeRemaining clockState - 30)\<rparr>
      else clockState)"

text \<open>The button guards \<^verbatim>\<open>canStart\<close>, \<^verbatim>\<open>canPause\<close>, \<^verbatim>\<open>canAdvance\<close>.\<close>

definition canStart :: "GameClockState \<Rightarrow> bool" where
  "canStart clockState = (\<not> clockRunning clockState \<and> timeRemaining clockState > 0)"

definition canPause :: "GameClockState \<Rightarrow> bool" where
  "canPause clockState = clockRunning clockState"

definition canAdvance :: "GameClockState \<Rightarrow> bool" where
  "canAdvance clockState = (mode clockState = manual \<and> timeRemaining clockState > 0)"

text \<open>
  What can happen to the clock: the interval fires (an interval exists only while the clock
  runs in a mode other than manual), or one of the buttons is pressed (a disabled button
  does nothing; the +30 sec button is shown in manual mode only).
\<close>

datatype ClockEvent =
  Tick | StartClock | PauseClock | NextQuarter | ChangeMode PlaybackMode | AdvanceManualTime

fun clock_step :: "GameClockState \<Rightarrow> ClockEvent \<Rightarrow> GameClockState" where
  "clock_step s Tick = (if clockRunning s \<and> mode s \<noteq> manual then tick s else s)"
| "clock_step s StartClock = (if canStart s then startClock s else s)"
| "clock_step s PauseClock = (if canPause s then pauseClock s else s)"
| "clock_step s NextQuarter = nextQuarter s"
| "clock_step s (ChangeMode m) = changeMode m s"
| "clock_step s AdvanceManualTime =
     (if mode s = manual \<and> canAdvance s then advanceManualTime s else s)"

text \<open>The clock state after a sequence of events, from the initial state.\<close>

definition run_clock :: "ClockEvent list \<Rightarrow> GameClockState" where
  "run_clock events = foldl clock_step initialClockState events"

section \<open>Biometric capture form (\<^verbatim>\<open>SAAInputModal.tsx\<close>)\<close>

text \<open>
  The two state variables of the modal: the text of the input field (\<^verbatim>\<open>saaValue\<close>, a
  string) and the flag that shows the inline message.
\<close>

record SAAInputState =
  saaValue_str :: string
  isInvalid :: bool

text \<open>
  What \<^verbatim>\<open>parseInt\<close> can return. A double holds every whole number up to \<open>2 ^ 53\<close>
  in magnitude exactly: \<open>Num n\<close> is such a number. Beyond that, \<^verbatim>\<open>parseInt\<close> returns
  the double nearest to the digits it read (it may drop digits after the 20th), which is
  \<^verbatim>\<open>Infinity\<close> for an entry of 309 digits or more: \<open>PosHuge\<close> stands for any such
  result, a double of at least \<open>2 ^ 53\<close> or \<^verbatim>\<open>Infinity\<close>, whose exact value the model
  does not give; \<open>NegHuge\<close> is its negative counterpart.
\<close>

datatype JSNumber = NaN | Num int | PosHuge | NegHuge

definition numberOfInt :: "int \<Rightarrow> JSNumber" where
  "numberOfInt i =
     (if \<bar>i\<bar> \<le> 2 ^ 53 then Num i else if 0 < i then PosHuge else NegHuge)"

text \<open>
  The character class \<^verbatim>\<open>\d\<close> and JavaScript's \<^verbatim>\<open>parseInt(str, 10)\<close>: leading
  white space is skipped, one sign is read, then the longest run of decimal digits; the
  result is \<^verbatim>\<open>NaN\<close> when there is no digit, and the number read, as a double, otherwise.
\<close>

definition isDigit :: "char \<Rightarrow> bool" where
  "isDigit c = (c \<in> set ''0123456789'')"

definition digitValue :: "char \<Rightarrow> nat" where
  "digitValue c = length (takeWhile (\<lambda>d. d \<noteq> c) ''0123456789'')"

definition isWhiteSpace :: "char \<Rightarrow> bool" where
  "isWhiteSpace c = (c \<in> set [CHR '' '', CHR 0x09, CHR 0x0A, CHR 0x0B, CHR 0x0C, CHR 0x0D])"

fun parseDigits :: "nat \<Rightarrow> string \<Rightarrow> nat" where
  "parseDigits acc [] = acc"
| "parseDigits acc (c # cs) =
     (if isDigit c then parseDigits (acc * 10 + digitValue c) cs else acc)"

definition parseInt :: "string \<Rightarrow> JSNumber" where
  "parseInt str =
     (let s = dropWhile isWhiteSpace str;
          sign = (case s of c # cs \<Rightarrow> if c = CHR ''-'' then - 1 else 1 | [] \<Rightarrow> 1);
          s = (case s of c # cs \<Rightarrow> if c = CHR ''-'' \<or> c = CHR ''+'' then cs else s | [] \<Rightarrow> s)
      in case s of
           [] \<Rightarrow> NaN
         | c # cs \<Rightarrow> if isDigit c then numberOfInt (sign * int (parseDigits 0 s)) else NaN)"

text \<open>\<^verbatim>\<open>Number.prototype.toString()\<close> on a whole number: its decimal digits.\<close>

function digitsOfNat :: "nat \<Rightarrow> string" where
  "digitsOfNat n =
     (if n < 10 then [''0123456789'' ! n]
      else digitsOfNat (n div 10) @ [''0123456789'' ! (n mod 10)])"
  by pat_completeness auto
termination
  by (relation "measure id") auto

definition toString :: "int \<Rightarrow> string" where
  "toString i = (if i < 0 then CHR ''-'' # digitsOfNat (nat (- i)) else digitsOfNat (nat i))"

declare digitsOfNat.simps [simp del]

definition initialSAAInputState :: SAAInputState where
  "initialSAAInputState = \<lparr>saaValue_str = [], isInvalid = False\<rparr>"

text \<open>
  \<^verbatim>\<open>if (value === '' || /^\d+$/.test(value)) { setSaaValue(value); setIsInvalid(false); }\<close>
\<close>

definition handleChange :: "string \<Rightarrow> SAAInputState \<Rightarrow> SAAInputState" where
  "handleChange v s =
     (if v = [] \<or> (v \<noteq> [] \<and> list_all isDigit v)
      then s\<lparr>saaValue_str := v, isInvalid := False\<rparr>
      else s)"

text \<open>
  \<^verbatim>\<open>Math.floor(Math.random() * (160 - 35 + 1)) + 35\<close>, with \<^verbatim>\<open>Math.random()\<close> as the
  parameter \<open>random\<close>.
\<close>

definition generateRandomValue :: "real \<Rightarrow> SAAInputState \<Rightarrow> SAAInputState" where
  "generateRandomValue random s =
     (let randomValue = \<lfloor>random * (160 - 35 + 1)\<rfloor> + 35
      in s\<lparr>saaValue_str := toString randomValue, isInvalid := False\<rparr>)"

text \<open>
  The comparisons \<^verbatim>\<open>numericValue < 50\<close> and \<^verbatim>\<open>numericValue > 80\<close>. A comparison with
  \<^verbatim>\<open>NaN\<close> is false; a double of at least \<open>2 ^ 53\<close> and \<^verbatim>\<open>Infinity\<close> are above 80.
\<close>

fun below50 :: "JSNumber \<Rightarrow> bool" where
  "below50 NaN = False"
| "below50 (Num n) = (n < 50)"
| "below50 PosHuge = False"
| "below50 NegHuge = True"

fun above80 :: "JSNumber \<Rightarrow> bool" where
  "above80 NaN = False"
| "above80 (Num n) = (n > 80)"
| "above80 PosHuge = True"
| "above80 NegHuge = False"

text \<open>
  \<^verbatim>\<open>handleSubmit\<close> returns the new state and the call of \<^verbatim>\<open>onSubmit\<close> it makes, if
  any.
\<close>

definition handleSubmit :: "SAAInputState \<Rightarrow> SAAInputState \<times> (JSNumber \<times> SAALevel) option" where
  "handleSubmit s =
     (if saaValue_str s = [] then (s\<lparr>isInvalid := True\<rparr>, None)
      else
        (let numericValue = parseInt (saaValue_str s);
             level = (if below50 numericValue then low
                      else if above80 numericValue then high else moderate)
         in (s\<lparr>saaValue_str := []\<rparr>, Some (numericValue, level))))"

text \<open>
  A session with the form: the user edits the field, presses Random or presses Submit; the
  calls of \<^verbatim>\<open>onSubmit\<close> are collected in order.
\<close>

datatype FormEvent = Change string | Random real | Submit

record FormRun =
  form :: SAAInputState
  submitted :: "(JSNumber \<times> SAALevel) list"

fun form_step :: "FormRun \<Rightarrow> FormEvent \<Rightarrow> FormRun" where
  "form_step r (Change v) = r\<lparr>form := handleChange v (form r)\<rparr>"
| "form_step r (Random x) = r\<lparr>form := generateRandomValue x (form r)\<rparr>"
| "form_step r Submit =
     (case handleSubmit (form r) of
        (s, None) \<Rightarrow> r\<lparr>form := s\<rparr>
      | (s, Some call) \<Rightarrow> r\<lparr>form := s, submitted := submitted r @ [call]\<rparr>)"


definition run_form :: "FormEvent list \<Rightarrow> FormRun" where
  "run_form events =
     foldl form_step \<lparr>form = initialSAAInputState, submitted = []\<rparr> events"


section \<open>Timeline orchestration (\<^verbatim>\<open>App.tsx\<close>, \<^verbatim>\<open>PlayerPanel.tsx\<close>, \<^verbatim>\<open>EventBlockGenerator.tsx\<close>)\<close>

text \<open>
  \<^verbatim>\<open>EventData\<close>, the unit of the accumulated history (\<^verbatim>\<open>timelineEvents\<close>). The
  \<^verbatim>\<open>timestamp\<close> is left out: nothing reads it. The field \<^verbatim>\<open>quarter\<close> carries a suffix,
  the plain name being a field of \<^verbatim>\<open>TimelineStats\<close>.
\<close>

record EventData =
  timelinePoint :: int
  quarter_event :: int
  actions :: "StatType list"
  surveyResponses :: "SurveyResponses option"
  saaValue :: "int option"
  saaLevel :: "SAALevel option"

text \<open>\<^verbatim>\<open>Partial<EventData>\<close>: every field may be missing.\<close>

record PartialEventData =
  timelinePoint_partial :: "int option"
  quarter_partial :: "int option"
  actions_partial :: "StatType list option"
  surveyResponses_partial :: "SurveyResponses option option"
  saaValue_partial :: "int option option"
  saaLevel_partial :: "SAALevel option option"

datatype PlayerStatus = OnCourt | Bench

text \<open>
  The state of the three components in one record. Of \<^verbatim>\<open>App\<close>: \<open>currentQuarter_app\<close>,
  \<open>timelineEvents\<close>, \<open>currentTimelinePoint\<close>. Of \<^verbatim>\<open>PlayerPanel\<close>: \<open>status\<close>,
  \<open>statsByTimeline\<close>, \<open>isSurveyOpen\<close>, \<open>isSAAInputOpen\<close>, \<open>tempSurveyResponses\<close>.
  Of \<^verbatim>\<open>EventBlockGenerator\<close>: \<open>isSurveyOpen_generator\<close>, \<open>showSAA\<close>, \<open>saaData\<close>,
  \<open>isGenerating\<close>, \<open>currentEventData\<close>. The props \<^verbatim>\<open>currentQuarter\<close> and
  \<^verbatim>\<open>currentTimelinePoint\<close> / \<^verbatim>\<open>timelinePoint\<close> of the two children are the fields of
  \<^verbatim>\<open>App\<close>. \<^verbatim>\<open>statsByTimeline\<close> has the keys 1 to 7 in the source; here every key has an
  entry, and only the keys 1 to 7 are ever used.
\<close>

record SystemState =
  currentQuarter_app :: int
  timelineEvents :: "EventData list"
  currentTimelinePoint :: int
  status :: PlayerStatus
  statsByTimeline :: "int \<Rightarrow> StatType \<Rightarrow> nat"
  isSurveyOpen :: bool
  isSAAInputOpen :: bool
  tempSurveyResponses :: "SurveyResponses option"
  isSurveyOpen_generator :: bool
  showSAA :: bool
  saaData :: "(int \<times> SAALevel) option"
  isGenerating :: bool
  currentEventData :: "PartialEventData option"

definition initialSystemState :: SystemState where
  "initialSystemState =
     \<lparr>currentQuarter_app = 1, timelineEvents = [], currentTimelinePoint = 1,
      status = OnCourt, statsByTimeline = (\<lambda>point statType. 0),
      isSurveyOpen = False, isSAAInputOpen = False, tempSurveyResponses = None,
      isSurveyOpen_generator = False, showSAA = False, saaData = None,
      isGenerating = False, currentEventData = None\<rparr>"

subsection \<open>\<^verbatim>\<open>App\<close>\<close>

text \<open>\<^verbatim>\<open>setCurrentTimelinePoint(prev => Math.min(prev + 1, 7))\<close>\<close>

definition advanceTimelinePoint :: "SystemState \<Rightarrow> SystemState" where
  "advanceTimelinePoint s =
     s\<lparr>currentTimelinePoint := min (currentTimelinePoint s + 1) 7\<rparr>"

definition handleEventGenerated :: "EventData \<Rightarrow> SystemState \<Rightarrow> SystemState" where
  "handleEventGenerated eventData s =
     advanceTimelinePoint (s\<lparr>timelineEvents := timelineEvents s @ [eventData]\<rparr>)"

text \<open>
  \<^verbatim>\<open>handleCompleteTimelineDataPush\<close>: the counts become a list of actions, in the key
  order of the stats object; the record is appended and the pointer advanced (after 100
  ms). The fields of \<^verbatim>\<open>CompleteTimelineData\<close> are the arguments.
\<close>

definition statsToActions :: "(StatType \<Rightarrow> nat) \<Rightarrow> StatType list" where
  "statsToActions stats =
     concat (map (\<lambda>type. replicate (stats type) type)
       [Points, Assists, Rebounds, Turnovers, GoodDecisions, BadDecisions])"

definition handleCompleteTimelineDataPush ::
  "int \<Rightarrow> (StatType \<Rightarrow> nat) \<Rightarrow> SurveyResponses option \<Rightarrow> int option \<Rightarrow> SAALevel option
     \<Rightarrow> SystemState \<Rightarrow> SystemState" where
  "handleCompleteTimelineDataPush point stats responses value level s =
     (let newEventData =
            \<lparr>timelinePoint = point, quarter_event = currentQuarter_app s,
             actions = statsToActions stats, surveyResponses = responses,
             saaValue = value, saaLevel = level\<rparr>
      in advanceTimelinePoint (s\<lparr>timelineEvents := timelineEvents s @ [newEventData]\<rparr>))"

subsection \<open>\<^verbatim>\<open>PlayerPanel\<close>\<close>

definition logAction :: "StatType \<Rightarrow> SystemState \<Rightarrow> SystemState" where
  "logAction statType s =
     (let timelineStats = statsByTimeline s (currentTimelinePoint s)
      in s\<lparr>statsByTimeline := (statsByTimeline s)
             (currentTimelinePoint s := timelineStats(statType := timelineStats statType + 1))\<rparr>)"

definition setPlayerStatus :: "PlayerStatus \<Rightarrow> SystemState \<Rightarrow> SystemState" where
  "setPlayerStatus st s = s\<lparr>status := st\<rparr>"

definition isSaveDisabled :: "SystemState \<Rightarrow> bool" where
  "isSaveDisabled s = (currentTimelinePoint s \<ge> 7)"

definition startSaveFlow :: "SystemState \<Rightarrow> SystemState" where
  "startSaveFlow s = s\<lparr>isSurveyOpen := True\<rparr>"

text \<open>The sAA modal opens 100 ms after the survey modal has closed.\<close>

definition handleSurveySubmit :: "SurveyResponses \<Rightarrow> SystemState \<Rightarrow> SystemState" where
  "handleSurveySubmit responses s =
     s\<lparr>tempSurveyResponses := Some responses, isSurveyOpen := False, isSAAInputOpen := True\<rparr>"

definition handleSAASubmit :: "int \<Rightarrow> SAALevel \<Rightarrow> SystemState \<Rightarrow> SystemState" where
  "handleSAASubmit value level s =
     (let currentTimelineData = statsByTimeline s (currentTimelinePoint s);
          pushed =
            handleCompleteTimelineDataPush (currentTimelinePoint s) currentTimelineData
              (tempSurveyResponses s) (Some value) (Some level) (s\<lparr>isSAAInputOpen := False\<rparr>)
      in pushed\<lparr>statsByTimeline := (statsByTimeline pushed)
                   (currentTimelinePoint s := (\<lambda>statType. 0)),
                 tempSurveyResponses := None\<rparr>)"

definition handleCancel :: "SystemState \<Rightarrow> SystemState" where
  "handleCancel s =
     s\<lparr>isSurveyOpen := False, isSAAInputOpen := False, tempSurveyResponses := None\<rparr>"

subsection \<open>\<^verbatim>\<open>EventBlockGenerator\<close>\<close>

text \<open>
  \<^verbatim>\<open>generateEventBlock\<close>, with the actions drawn by \<^verbatim>\<open>generateRandomActions\<close> as a
  parameter. The pacing delays between its steps are left out.
\<close>

definition generateEventBlock :: "StatType list \<Rightarrow> SystemState \<Rightarrow> SystemState" where
  "generateEventBlock drawn s =
     (if isGenerating s then s
      else
        (let s = s\<lparr>isGenerating := True,
                   currentEventData := Some
                     \<lparr>timelinePoint_partial = Some (currentTimelinePoint s),
                      quarter_partial = Some (currentQuarter_app s),
                      actions_partial = Some drawn,
                      surveyResponses_partial = None, saaValue_partial = None,
                      saaLevel_partial = None\<rparr>\<rparr>;
             s = foldl (\<lambda>s action. logAction action s) s drawn;
             s = setPlayerStatus Bench s
         in s\<lparr>isSurveyOpen_generator := True\<rparr>))"

text \<open>
  The generator's \<^verbatim>\<open>handleSurveySubmit\<close>, with \<^verbatim>\<open>Math.random()\<close> as a parameter and
  its two timeouts run to the end. \<^verbatim>\<open>{...prev, x}\<close> on a null \<^verbatim>\<open>prev\<close> is the object
  with the new fields only. The completion callback reads \<^verbatim>\<open>currentEventData\<close>,
  \<^verbatim>\<open>timelinePoint\<close> and \<^verbatim>\<open>currentQuarter\<close> as they were when the survey was submitted.
  The clock advance \<^verbatim>\<open>advanceGameTime\<close> does not touch this state.
\<close>

definition handleSurveySubmit_generator ::
  "SurveyResponses \<Rightarrow> real \<Rightarrow> SystemState \<Rightarrow> SystemState" where
  "handleSurveySubmit_generator responses random s =
     (let saaResult = calculateSAAValue_generator responses random;
          prev = (case currentEventData s of
                    Some d \<Rightarrow> d
                  | None \<Rightarrow> \<lparr>timelinePoint_partial = None, quarter_partial = None,
                             actions_partial = None, surveyResponses_partial = None,
                             saaValue_partial = None, saaLevel_partial = None\<rparr>);
          s1 = s\<lparr>currentEventData := Some
                     (prev\<lparr>surveyResponses_partial := Some (Some responses),
                           saaValue_partial := Some (Some (fst saaResult)),
                           saaLevel_partial := Some (Some (snd saaResult))\<rparr>),
                  saaData := Some saaResult, showSAA := True\<rparr>;
          s2 = (case currentEventData s of
                  None \<Rightarrow> s1
                | Some d \<Rightarrow>
                    handleEventGenerated
                      \<lparr>timelinePoint = currentTimelinePoint s,
                       quarter_event = currentQuarter_app s,
                       actions = (case actions_partial d of Some a \<Rightarrow> a | None \<Rightarrow> []),
                       surveyResponses = Some responses,
                       saaValue = Some (fst saaResult), saaLevel = Some (snd saaResult)\<rparr>
                      s1)
      in s2\<lparr>showSAA := False, isGenerating := False\<rparr>)"

text \<open>\<^verbatim>\<open>onClose={() => setIsSurveyOpen(false)}\<close>\<close>

definition closeSurvey_generator :: "SystemState \<Rightarrow> SystemState" where
  "closeSurvey_generator s = s\<lparr>isSurveyOpen_generator := False\<rparr>"

subsection \<open>User events\<close>

text \<open>
  What the user can do. A survey modal (the \<^verbatim>\<open>SurveyModal\<close> with a Cancel button:
  Submit calls \<^verbatim>\<open>onSubmit\<close>, Cancel calls \<^verbatim>\<open>onClose\<close>) and the sAA modal exist only
  while their \<^verbatim>\<open>isOpen\<close> flag is set; the Save button is disabled by
  \<^verbatim>\<open>isSaveDisabled\<close>, the Generate button by \<^verbatim>\<open>isGenerating\<close>. The clock reports a new
  quarter through \<^verbatim>\<open>handleQuarterChange\<close>.
\<close>

datatype SystemEvent =
  QuarterChange int
| LogAction StatType
| SaveStats
| PanelSurveySubmit SurveyResponses
| PanelSurveyCancel
| SAASubmit int SAALevel
| SAACancel
| GenerateEventBlock "StatType list"
| GeneratorSurveySubmit SurveyResponses real
| GeneratorSurveyCancel

fun system_step :: "SystemState \<Rightarrow> SystemEvent \<Rightarrow> SystemState" where
  "system_step s (QuarterChange q) = s\<lparr>currentQuarter_app := q\<rparr>"
| "system_step s (LogAction statType) = logAction statType s"
| "system_step s SaveStats = (if isSaveDisabled s then s else startSaveFlow s)"
| "system_step s (PanelSurveySubmit responses) =
     (if isSurveyOpen s then handleSurveySubmit responses s else s)"
| "system_step s PanelSurveyCancel = (if isSurveyOpen s then handleCancel s else s)"
| "system_step s (SAASubmit value level) =
     (if isSAAInputOpen s then handleSAASubmit value level s else s)"
| "system_step s SAACancel = (if isSAAInputOpen s then handleCancel s else s)"
| "system_step s (GenerateEventBlock drawn) = generateEventBlock drawn s"
| "system_step s (GeneratorSurveySubmit responses random) =
     (if isSurveyOpen_generator s then handleSurveySubmit_generator responses random s else s)"
| "system_step s GeneratorSurveyCancel =
     (if isSurveyOpen_generator s then closeSurvey_generator s else s)"

definition run_system :: "SystemEvent list \<Rightarrow> SystemState" where
  "run_system events = foldl system_step initialSystemState events"

text \<open>
  One full cycle of the generator: the button, the survey submitted, the survey modal
  closed.
\<close>

definition generator_cycle :: "SystemEvent list" where
  "generator_cycle =
     [GenerateEventBlock [Points, Assists, Rebounds],
      GeneratorSurveySubmit \<lparr>emotionalArousal = 8, momentum = 2, flow = 9\<rparr> (1 / 2),
      GeneratorSurveyCancel]"

text \<open>\<open>n\<close> cycles of the generator, one after the other.\<close>

definition generator_cycles :: "nat \<Rightarrow> SystemEvent list" where
  "generator_cycles n = concat (replicate n generator_cycle)"

section \<open>Performance score\<close>

lemma foldl_weights_acc:
  "foldl (\<lambda>total tag. total + weights tag) acc tags
     = acc + (\<Sum>a\<leftarrow>tags. weights a)"
  by (induction tags arbitrary: acc) simp_all

lemma sum_weights_by_count:
  "(\<Sum>a\<leftarrow>tags. weights a)
     = 10 * int (count_list tags Points) + 8 * int (count_list tags Assists)
       + 6 * int (count_list tags Rebounds) - 5 * int (count_list tags Turnovers)
       + 7 * int (count_list tags GoodDecisions) - 6 * int (count_list tags BadDecisions)"
proof (induction tags)
  case Nil
  show ?case by simp
next
  case (Cons a tags)
  then show ?case by (cases a) simp_all
qed

text \<open>
  C2. For every sequence of action tags, \<open>calculatePerformanceScore\<close> is
  \<open>max 0 (min 100 (50 + weighted sum))\<close>, the weighted sum counting every occurrence of
  a tag with its weight (+10, +8, +6, -5, +7, -6); the result lies in \<open>[0, 100]\<close>; six
  turnovers give 20; points, assist, rebound give 74.
\<close>

theorem calculatePerformanceScore_spec:
  "calculatePerformanceScore tags
     = max 0 (min 100 (50
         + (10 * int (count_list tags Points) + 8 * int (count_list tags Assists)
            + 6 * int (count_list tags Rebounds) - 5 * int (count_list tags Turnovers)
            + 7 * int (count_list tags GoodDecisions)
            - 6 * int (count_list tags BadDecisions))))
   \<and> 0 \<le> calculatePerformanceScore tags
   \<and> calculatePerformanceScore tags \<le> 100
   \<and> calculatePerformanceScore (replicate 6 Turnovers) = 20
   \<and> calculatePerformanceScore [Points, Assists, Rebounds] = 74"
proof -
  have raw: "foldl (\<lambda>total tag. total + weights tag) 0 tags
               = (\<Sum>a\<leftarrow>tags. weights a)" for tags
    using foldl_weights_acc [of 0 tags] by simp
  have eq: "calculatePerformanceScore tags = max 0 (min 100 (50 + (\<Sum>a\<leftarrow>tags. weights a)))"
    for tags
    by (simp add: calculatePerformanceScore_def raw add.commute)
  have six: "calculatePerformanceScore (replicate 6 Turnovers) = 20"
    by (simp add: eq numeral_eq_Suc)
  have three: "calculatePerformanceScore [Points, Assists, Rebounds] = 74"
    by (simp add: eq)
  show ?thesis
    using eq [of tags] six three by (simp add: sum_weights_by_count)
qed

section \<open>Biometric value from the survey\<close>

lemma js_round_bounds:
  "real_of_int lo \<le> x \<Longrightarrow> x \<le> real_of_int hi \<Longrightarrow> lo \<le> js_round x \<and> js_round x \<le> hi"
  unfolding js_round_def by linarith

lemma js_round_clamped:
  "30 \<le> js_round (max 30 (min 160 y)) \<and> js_round (max 30 (min 160 y)) \<le> 160"
  unfolding js_round_def by linarith

lemma calculateSAAValue_range:
  "30 \<le> fst (calculateSAAValue responses random) \<and> fst (calculateSAAValue responses random) \<le> 160"
  unfolding calculateSAAValue_def Let_def fst_conv by (rule js_round_clamped)

lemma calculateSAAValue_level:
  "snd (calculateSAAValue responses random)
     = (if fst (calculateSAAValue responses random) < 50 then low
        else if fst (calculateSAAValue responses random) > 80 then high else moderate)"
  unfolding calculateSAAValue_def Let_def by (simp only: fst_conv snd_conv)

lemma calculateSAAValue_generator_level:
  "snd (calculateSAAValue_generator responses random)
     = (if fst (calculateSAAValue_generator responses random) < 50 then low
        else if fst (calculateSAAValue_generator responses random) > 80 then high else moderate)"
  unfolding calculateSAAValue_generator_def Let_def by (simp only: fst_conv snd_conv)

lemma calculateSAAValue_generator_range:
  assumes "1 \<le> emotionalArousal responses" "emotionalArousal responses \<le> 9"
    and "1 \<le> momentum responses" "momentum responses \<le> 9"
    and "1 \<le> flow responses" "flow responses \<le> 9"
    and "0 \<le> random" "random < 1"
  shows "30 \<le> fst (calculateSAAValue_generator responses random)
       \<and> fst (calculateSAAValue_generator responses random) \<le> 160"
proof -
  define c where "c = 30 + real_of_int (emotionalArousal responses) * 2
      + real_of_int (momentum responses) * 1.5 + real_of_int (flow responses) * 3
      + (random * 10 - 5)"
  have a: "1 \<le> real_of_int (emotionalArousal responses)" "real_of_int (emotionalArousal responses) \<le> 9"
    and m: "1 \<le> real_of_int (momentum responses)" "real_of_int (momentum responses) \<le> 9"
    and f: "1 \<le> real_of_int (flow responses)" "real_of_int (flow responses) \<le> 9"
    using assms by simp_all
  have "real_of_int 30 \<le> c" "c \<le> real_of_int 160"
    unfolding c_def using a m f assms(7,8) by linarith+
  then have "30 \<le> js_round c \<and> js_round c \<le> 160" by (rule js_round_bounds)
  moreover have "fst (calculateSAAValue_generator responses random) = js_round c"
    by (simp add: calculateSAAValue_generator_def Let_def c_def)
  ultimately show ?thesis by simp
qed


lemma saa_result_okI:
  "30 \<le> fst res \<and> fst res \<le> 160 \<Longrightarrow>
   snd res = (if fst res < 50 then low else if fst res > 80 then high else moderate) \<Longrightarrow>
   saa_result_ok res"
  by (auto simp: saa_result_ok_def)

text \<open>
  C3. For ratings that are integers in \<open>[1, 9]\<close> and every value of the random term
  (\<^verbatim>\<open>Math.random()\<close> in \<open>[0, 1)\<close>), both variants of the biometric formula return a
  value in \<open>[30, 160]\<close>, with level \<open>low\<close> exactly below 50, \<open>high\<close> exactly above 80
  and \<open>moderate\<close> otherwise.
\<close>

theorem calculateSAAValue_range_and_level:
  assumes "1 \<le> emotionalArousal responses" "emotionalArousal responses \<le> 9"
    and "1 \<le> momentum responses" "momentum responses \<le> 9"
    and "1 \<le> flow responses" "flow responses \<le> 9"
    and "0 \<le> random" "random < 1"
  shows "saa_result_ok (calculateSAAValue responses random)
       \<and> saa_result_ok (calculateSAAValue_generator responses random)"
proof
  show "saa_result_ok (calculateSAAValue responses random)"
    by (rule saa_result_okI [OF calculateSAAValue_range calculateSAAValue_level])
  show "saa_result_ok (calculateSAAValue_generator responses random)"
    by (rule saa_result_okI
        [OF calculateSAAValue_generator_range [OF assms] calculateSAAValue_generator_level])
qed

theorem calculateSAAValue_range_and_level_witness:
  "saa_result_ok (calculateSAAValue \<lparr>emotionalArousal = 8, momentum = 2, flow = 9\<rparr> (1 / 2))
   \<and> saa_result_ok
        (calculateSAAValue_generator \<lparr>emotionalArousal = 8, momentum = 2, flow = 9\<rparr> (1 / 2))
   \<and> calculateSAAValue \<lparr>emotionalArousal = 8, momentum = 2, flow = 9\<rparr> (1 / 2) = (70, moderate)
   \<and> calculateSAAValue_generator \<lparr>emotionalArousal = 8, momentum = 2, flow = 9\<rparr> (1 / 2)
       = (76, moderate)"
proof -
  have "saa_result_ok (calculateSAAValue \<lparr>emotionalArousal = 8, momentum = 2, flow = 9\<rparr> (1 / 2))
   \<and> saa_result_ok
        (calculateSAAValue_generator \<lparr>emotionalArousal = 8, momentum = 2, flow = 9\<rparr> (1 / 2))"
    by (rule calculateSAAValue_range_and_level) simp_all
  moreover have
    "calculateSAAValue \<lparr>emotionalArousal = 8, momentum = 2, flow = 9\<rparr> (1 / 2) = (70, moderate)"
    by (simp add: calculateSAAValue_def js_round_def)
  moreover have
    "calculateSAAValue_generator \<lparr>emotionalArousal = 8, momentum = 2, flow = 9\<rparr> (1 / 2)
       = (76, moderate)"
    by (simp add: calculateSAAValue_generator_def js_round_def)
  ultimately show ?thesis by simp
qed

section \<open>Efficiency\<close>

text \<open>
  C6. The efficiency is null exactly when the total action count of the slot
  (points + assists + rebounds + turnovers + goodDecisions + badDecisions) is zero; with at
  least one action it is a percentage.
\<close>

theorem efficiency_null_iff_no_actions:
  "(efficiencyPercentage (calculateHollingerScore stats) = None)
     = (points stats + assists stats + rebounds stats + turnovers stats
          + goodDecisions stats + badDecisions stats = 0)
   \<and> (\<exists>p. efficiencyPercentage (calculateHollingerScore stats) = Some p)
     = (1 \<le> points stats + assists stats + rebounds stats + turnovers stats
          + goodDecisions stats + badDecisions stats)"
  by (simp add: calculateHollingerScore_def Let_def totalActions_def Suc_le_eq)

theorem efficiency_null_iff_no_actions_witness:
  "efficiencyPercentage (calculateHollingerScore
      \<lparr>timePoint = 1, quarter = 1, points = 0, assists = 0, rebounds = 0, turnovers = 0,
       goodDecisions = 0, badDecisions = 0, performance = 0\<rparr>) = None
   \<and> (\<exists>p. efficiencyPercentage (calculateHollingerScore
      \<lparr>timePoint = 1, quarter = 1, points = 0, assists = 0, rebounds = 0, turnovers = 1,
       goodDecisions = 0, badDecisions = 0, performance = 0\<rparr>) = Some p)"
  using efficiency_null_iff_no_actions
      [of "\<lparr>timePoint = 1, quarter = 1, points = 0, assists = 0, rebounds = 0, turnovers = 0,
            goodDecisions = 0, badDecisions = 0, performance = 0\<rparr>"]
    efficiency_null_iff_no_actions
      [of "\<lparr>timePoint = 1, quarter = 1, points = 0, assists = 0, rebounds = 0, turnovers = 1,
            goodDecisions = 0, badDecisions = 0, performance = 0\<rparr>"]
  by simp

lemma efficiency_single_positive:
  assumes "totalActions stats = 1" "gameScore (calculateHollingerScore stats) > 0"
  shows "\<exists>p. efficiencyPercentage (calculateHollingerScore stats) = Some p \<and> p \<le> 80"
proof -
  have pos: "positiveScore stats - negativeScore stats > 0"
    using assms by (simp add: calculateHollingerScore_def Let_def)
  show ?thesis
    using assms(1) pos by (simp add: calculateHollingerScore_def Let_def)
qed

lemma efficiency_all_negative:
  assumes "positiveScore stats = 0" "negativeScore stats > 0"
  shows "efficiencyPercentage (calculateHollingerScore stats)
           = Some (max 0 (min 30 (30 - 10 * negativeScore stats)))
       \<and> max 0 (min 30 (30 - 10 * negativeScore stats)) \<le> 30"
proof -
  have "totalActions stats \<noteq> 0"
    using assms(2) by (auto simp: negativeScore_def totalActions_def)
  then show ?thesis
    using assms by (simp add: calculateHollingerScore_def Let_def mult.commute)
qed

text \<open>
  C7. With exactly one action whose game score is positive the efficiency is at most 80;
  with \<open>positiveScore = 0\<close> and \<open>negativeScore > 0\<close> it is
  \<open>max 0 (min 30 (30 - 10 * negativeScore))\<close>, hence at most 30.
\<close>

theorem efficiency_caps:
  "(totalActions stats = 1 \<and> gameScore (calculateHollingerScore stats) > 0 \<longrightarrow>
      (\<exists>p. efficiencyPercentage (calculateHollingerScore stats) = Some p \<and> p \<le> 80))
   \<and> (positiveScore stats = 0 \<and> negativeScore stats > 0 \<longrightarrow>
      efficiencyPercentage (calculateHollingerScore stats)
        = Some (max 0 (min 30 (30 - 10 * negativeScore stats)))
      \<and> max 0 (min 30 (30 - 10 * negativeScore stats)) \<le> 30)"
  using efficiency_single_positive [of stats] efficiency_all_negative [of stats] by blast

theorem efficiency_caps_witness:
  "totalActions \<lparr>timePoint = 1, quarter = 1, points = 1, assists = 0, rebounds = 0,
       turnovers = 0, goodDecisions = 0, badDecisions = 0, performance = 60\<rparr> = 1
   \<and> gameScore (calculateHollingerScore
       \<lparr>timePoint = 1, quarter = 1, points = 1, assists = 0, rebounds = 0,
        turnovers = 0, goodDecisions = 0, badDecisions = 0, performance = 60\<rparr>) = 1
   \<and> (\<exists>p. efficiencyPercentage (calculateHollingerScore
       \<lparr>timePoint = 1, quarter = 1, points = 1, assists = 0, rebounds = 0,
        turnovers = 0, goodDecisions = 0, badDecisions = 0, performance = 60\<rparr>) = Some p
        \<and> p \<le> 80)
   \<and> positiveScore \<lparr>timePoint = 2, quarter = 1, points = 0, assists = 0, rebounds = 0,
       turnovers = 1, goodDecisions = 0, badDecisions = 1, performance = 39\<rparr> = 0
   \<and> negativeScore \<lparr>timePoint = 2, quarter = 1, points = 0, assists = 0, rebounds = 0,
       turnovers = 1, goodDecisions = 0, badDecisions = 1, performance = 39\<rparr> = 17 / 10
   \<and> efficiencyPercentage (calculateHollingerScore
       \<lparr>timePoint = 2, quarter = 1, points = 0, assists = 0, rebounds = 0,
        turnovers = 1, goodDecisions = 0, badDecisions = 1, performance = 39\<rparr>) = Some 13"
  using efficiency_caps
      [of "\<lparr>timePoint = 1, quarter = 1, points = 1, assists = 0, rebounds = 0,
            turnovers = 0, goodDecisions = 0, badDecisions = 0, performance = 60\<rparr>"]
    efficiency_caps
      [of "\<lparr>timePoint = 2, quarter = 1, points = 0, assists = 0, rebounds = 0,
            turnovers = 1, goodDecisions = 0, badDecisions = 1, performance = 39\<rparr>"]
  by (simp add: totalActions_def positiveScore_def negativeScore_def
      calculateHollingerScore_def)

section \<open>Psychological state\<close>

text \<open>
  C10. For every survey response triple, in particular with each rating an integer in
  \<open>[1, 9]\<close>, \<open>calculatePsychologicalState\<close> returns a number in \<open>[0, 100]\<close>.
\<close>

theorem calculatePsychologicalState_range:
  "\<exists>s. calculatePsychologicalState responses = Some s \<and> 0 \<le> s \<and> s \<le> 100"
  by (simp add: calculatePsychologicalState_def normalizeValue_def Let_def)

theorem calculatePsychologicalState_range_witness:
  "calculatePsychologicalState \<lparr>emotionalArousal = 1, momentum = 1, flow = 1\<rparr> = Some 31
   \<and> calculatePsychologicalState \<lparr>emotionalArousal = 5, momentum = 9, flow = 9\<rparr> = Some 100"
  using calculatePsychologicalState_range [of "\<lparr>emotionalArousal = 1, momentum = 1, flow = 1\<rparr>"]
  by (simp add: calculatePsychologicalState_def normalizeValue_def)

section \<open>Game clock\<close>

lemma clock_step_nonneg:
  "0 \<le> timeRemaining s \<Longrightarrow> 0 \<le> timeRemaining (clock_step s e)"
  by (cases e)
    (simp_all add: tick_def startClock_def pauseClock_def nextQuarter_def changeMode_def
      advanceManualTime_def QUARTER_TIME_def Let_def)

lemma clock_step_at_most_quarter:
  "timeRemaining s \<le> QUARTER_TIME \<Longrightarrow> timeRemaining (clock_step s e) \<le> QUARTER_TIME"
  by (cases e)
    (simp_all add: tick_def startClock_def pauseClock_def nextQuarter_def changeMode_def
      advanceManualTime_def QUARTER_TIME_def Let_def)

lemma run_clock_snoc: "run_clock (events @ [e]) = clock_step (run_clock events) e"
  by (simp add: run_clock_def)

lemma run_clock_bounds:
  "0 \<le> timeRemaining (run_clock events) \<and> timeRemaining (run_clock events) \<le> QUARTER_TIME"
proof (induction events rule: rev_induct)
  case Nil
  show ?case by (simp add: run_clock_def initialClockState_def QUARTER_TIME_def)
next
  case (snoc e events)
  then show ?case
    by (simp add: run_clock_snoc clock_step_nonneg clock_step_at_most_quarter)
qed

lemma fast_tick:
  assumes "clockRunning s" "mode s = fast" "0 \<le> timeRemaining s"
  shows "timeRemaining (clock_step s Tick) = max 0 (timeRemaining s - 5)"
  using assms by (simp add: tick_def)

text \<open>
  C8. In every reachable clock state that is running in fast mode, a tick decreases the
  remaining time by 5 seconds, clamped at 0; five ticks from 600 seconds leave 575; in
  no reachable clock state is the remaining time negative.
\<close>

theorem fast_clock_ticks:
  "(clockRunning (run_clock events) \<and> mode (run_clock events) = fast \<longrightarrow>
      timeRemaining (run_clock (events @ [Tick]))
        = max 0 (timeRemaining (run_clock events) - 5))
   \<and> 0 \<le> timeRemaining (run_clock events)
   \<and> timeRemaining (run_clock [ChangeMode fast, StartClock]) = 600
   \<and> run_clock [ChangeMode fast, StartClock, Tick, Tick, Tick, Tick, Tick]
       = \<lparr>currentQuarter = 1, timeRemaining = 575, clockRunning = True, mode = fast\<rparr>"
proof -
  have "0 \<le> timeRemaining (run_clock events)"
    using run_clock_bounds [of events] by simp
  moreover from this have "clockRunning (run_clock events) \<and> mode (run_clock events) = fast \<longrightarrow>
      timeRemaining (run_clock (events @ [Tick]))
        = max 0 (timeRemaining (run_clock events) - 5)"
    using fast_tick [of "run_clock events"] by (simp only: run_clock_snoc) blast
  moreover have "timeRemaining (run_clock [ChangeMode fast, StartClock]) = 600"
    by (simp add: run_clock_def initialClockState_def QUARTER_TIME_def changeMode_def
        canStart_def startClock_def)
  moreover have "run_clock [ChangeMode fast, StartClock, Tick, Tick, Tick, Tick, Tick]
       = \<lparr>currentQuarter = 1, timeRemaining = 575, clockRunning = True, mode = fast\<rparr>"
    by (simp add: run_clock_def initialClockState_def QUARTER_TIME_def changeMode_def
        canStart_def startClock_def tick_def)
  ultimately show ?thesis by blast
qed

theorem fast_clock_ticks_witness:
  "clockRunning (run_clock [ChangeMode fast, StartClock, Tick])
   \<and> mode (run_clock [ChangeMode fast, StartClock, Tick]) = fast
   \<and> timeRemaining (run_clock [ChangeMode fast, StartClock, Tick]) = 595
   \<and> timeRemaining (run_clock ([ChangeMode fast, StartClock, Tick] @ [Tick])) = 590"
  using fast_clock_ticks [of "[ChangeMode fast, StartClock, Tick]"]
  by (simp add: run_clock_def initialClockState_def QUARTER_TIME_def changeMode_def
      canStart_def startClock_def tick_def)

section \<open>Biometric capture form\<close>



























text \<open>
  An entry above \<open>2 ^ 53\<close> is submitted as a double that the model leaves open, with
  level \<open>high\<close>.
\<close>

lemma long_entry_submitted:
  "submitted (run_form [Change ''99999999999999999'', Submit]) = [(PosHuge, high)]"
  by (simp add: run_form_def initialSAAInputState_def handleChange_def handleSubmit_def
      parseInt_def isDigit_def isWhiteSpace_def digitValue_def numberOfInt_def)


section \<open>Timeline orchestration\<close>

lemma logAction_fields:
  "currentTimelinePoint (logAction a s) = currentTimelinePoint s"
  "timelineEvents (logAction a s) = timelineEvents s"
  "isGenerating (logAction a s) = isGenerating s"
  "isSurveyOpen_generator (logAction a s) = isSurveyOpen_generator s"
  "isSurveyOpen (logAction a s) = isSurveyOpen s"
  "isSAAInputOpen (logAction a s) = isSAAInputOpen s"
  "currentEventData (logAction a s) = currentEventData s"
  "currentQuarter_app (logAction a s) = currentQuarter_app s"
  by (simp_all add: logAction_def Let_def)

lemma foldl_logAction_fields:
  "currentTimelinePoint (foldl (\<lambda>s action. logAction action s) s drawn) = currentTimelinePoint s"
  "timelineEvents (foldl (\<lambda>s action. logAction action s) s drawn) = timelineEvents s"
  "isGenerating (foldl (\<lambda>s action. logAction action s) s drawn) = isGenerating s"
  "isSurveyOpen_generator (foldl (\<lambda>s action. logAction action s) s drawn)
     = isSurveyOpen_generator s"
  "isSurveyOpen (foldl (\<lambda>s action. logAction action s) s drawn) = isSurveyOpen s"
  "isSAAInputOpen (foldl (\<lambda>s action. logAction action s) s drawn) = isSAAInputOpen s"
  "currentEventData (foldl (\<lambda>s action. logAction action s) s drawn) = currentEventData s"
  "currentQuarter_app (foldl (\<lambda>s action. logAction action s) s drawn) = currentQuarter_app s"
  by (induction drawn arbitrary: s) (simp_all add: logAction_fields)

lemma generateEventBlock_fields:
  "currentTimelinePoint (generateEventBlock drawn s) = currentTimelinePoint s"
  "timelineEvents (generateEventBlock drawn s) = timelineEvents s"
  by (simp_all add: generateEventBlock_def Let_def setPlayerStatus_def foldl_logAction_fields)

lemma generateEventBlock_starts:
  "\<not> isGenerating s \<Longrightarrow>
   isGenerating (generateEventBlock drawn s)
   \<and> isSurveyOpen_generator (generateEventBlock drawn s)
   \<and> (\<exists>d. currentEventData (generateEventBlock drawn s) = Some d
          \<and> actions_partial d = Some drawn)"
  by (simp add: generateEventBlock_def Let_def setPlayerStatus_def foldl_logAction_fields)

lemma advanceTimelinePoint_bounds:
  "1 \<le> currentTimelinePoint s \<Longrightarrow> currentTimelinePoint s \<le> 7 \<Longrightarrow>
   1 \<le> currentTimelinePoint (advanceTimelinePoint s)
   \<and> currentTimelinePoint (advanceTimelinePoint s) \<le> 7"
  by (simp add: advanceTimelinePoint_def)

lemma system_step_pointer_bounds:
  assumes "1 \<le> currentTimelinePoint s" "currentTimelinePoint s \<le> 7"
  shows "1 \<le> currentTimelinePoint (system_step s e)
       \<and> currentTimelinePoint (system_step s e) \<le> 7"
proof (cases e)
  case (GenerateEventBlock drawn)
  then show ?thesis using assms by (simp add: generateEventBlock_fields)
next
  case (GeneratorSurveySubmit responses random)
  then show ?thesis
    using assms
    by (simp add: handleSurveySubmit_generator_def handleEventGenerated_def
        advanceTimelinePoint_def Let_def split: option.split)
next
  case (SAASubmit v l)
  then show ?thesis
    using assms
    by (simp add: handleSAASubmit_def handleCompleteTimelineDataPush_def
        advanceTimelinePoint_def Let_def)
qed (use assms in \<open>simp_all add: logAction_fields startSaveFlow_def handleSurveySubmit_def
      handleCancel_def closeSurvey_generator_def\<close>)

lemma run_system_snoc: "run_system (events @ [e]) = system_step (run_system events) e"
  by (simp add: run_system_def)

lemma run_system_append:
  "run_system (events @ later) = foldl system_step (run_system events) later"
  by (simp add: run_system_def)

text \<open>The timeline pointer stays between 1 and 7, whatever happens.\<close>

lemma timeline_pointer_bounds:
  "1 \<le> currentTimelinePoint (run_system events) \<and> currentTimelinePoint (run_system events) \<le> 7"
proof (induction events rule: rev_induct)
  case Nil
  show ?case by (simp add: run_system_def initialSystemState_def)
next
  case (snoc e events)
  then show ?case by (simp add: run_system_snoc system_step_pointer_bounds)
qed

lemma generator_cycle_appends:
  assumes "\<not> isGenerating s"
  shows "length (timelineEvents (foldl system_step s generator_cycle))
           = length (timelineEvents s) + 1
       \<and> map timelinePoint (timelineEvents (foldl system_step s generator_cycle))
           = map timelinePoint (timelineEvents s) @ [currentTimelinePoint s]
       \<and> currentTimelinePoint (foldl system_step s generator_cycle)
           = min (currentTimelinePoint s + 1) 7
       \<and> \<not> isGenerating (foldl system_step s generator_cycle)"
proof -
  let ?g = "generateEventBlock [Points, Assists, Rebounds] s"
  from generateEventBlock_starts [OF assms, of "[Points, Assists, Rebounds]"]
  obtain d where g: "isGenerating ?g" "isSurveyOpen_generator ?g"
    "currentEventData ?g = Some d" by blast
  let ?h = "handleSurveySubmit_generator \<lparr>emotionalArousal = 8, momentum = 2, flow = 9\<rparr> (1 / 2) ?g"
  have h: "length (timelineEvents ?h) = length (timelineEvents s) + 1"
    "map timelinePoint (timelineEvents ?h)
       = map timelinePoint (timelineEvents s) @ [currentTimelinePoint s]"
    "currentTimelinePoint ?h = min (currentTimelinePoint s + 1) 7"
    "\<not> isGenerating ?h"
    using g(3)
    by (simp_all add: handleSurveySubmit_generator_def handleEventGenerated_def
        advanceTimelinePoint_def Let_def generateEventBlock_fields)
  have "foldl system_step s generator_cycle
          = (if isSurveyOpen_generator ?h then closeSurvey_generator ?h else ?h)"
    using g(2) by (simp add: generator_cycle_def)
  then show ?thesis using h by (simp add: closeSurvey_generator_def)
qed

lemma generator_cycles_Suc:
  "generator_cycles (Suc n) = generator_cycles n @ generator_cycle"
proof -
  have "replicate (Suc n) generator_cycle = replicate n generator_cycle @ [generator_cycle]"
    by (simp add: replicate_append_same)
  then show ?thesis by (simp add: generator_cycles_def)
qed

lemma generator_cycles_history:
  "length (timelineEvents (run_system (generator_cycles n))) = n
   \<and> map timelinePoint (timelineEvents (run_system (generator_cycles n)))
       = map (\<lambda>k. min (int k + 1) 7) [0..<n]
   \<and> currentTimelinePoint (run_system (generator_cycles n)) = min (int n + 1) 7
   \<and> \<not> isGenerating (run_system (generator_cycles n))"
proof (induction n)
  case 0
  show ?case by (simp add: generator_cycles_def run_system_def initialSystemState_def)
next
  case (Suc n)
  then have idle: "\<not> isGenerating (run_system (generator_cycles n))" by simp
  show ?case
    using Suc generator_cycle_appends [OF idle]
    by (simp add: generator_cycles_Suc run_system_append)
qed

text \<open>
  The start trigger of \<^verbatim>\<open>PlayerPanel\<close> is guarded: at timeline point 7 the Save button
  does nothing.
\<close>

lemma save_disabled_at_seven:
  "currentTimelinePoint s = 7 \<Longrightarrow> system_step s SaveStats = s"
  by (simp add: isSaveDisabled_def)

text \<open>
  C1 at its failing input. After seven cycles of the generator the pointer is 7, the
  history holds 7 records and the Generate button is enabled (\<open>isGenerating\<close> is
  false); pressing it starts a cycle, and the cycle appends an 8th record, again for
  timeline point 7.
\<close>

theorem eighth_record_appended:
  "length (timelineEvents (run_system (generator_cycles 7))) = 7
   \<and> currentTimelinePoint (run_system (generator_cycles 7)) = 7
   \<and> isGenerating (run_system (generator_cycles 7)) = False
   \<and> isGenerating (run_system (generator_cycles 7 @ [GenerateEventBlock [Points]])) = True
   \<and> length (timelineEvents (run_system (generator_cycles 7 @ generator_cycle))) = 8
   \<and> map timelinePoint (timelineEvents (run_system (generator_cycles 7 @ generator_cycle)))
       = [1, 2, 3, 4, 5, 6, 7, 7]
   \<and> currentTimelinePoint (run_system (generator_cycles 7 @ generator_cycle)) = 7"
proof -
  have idle: "\<not> isGenerating (run_system (generator_cycles 7))"
    using generator_cycles_history [of 7] by simp
  have "isGenerating (run_system (generator_cycles 7 @ [GenerateEventBlock [Points]]))"
    using generateEventBlock_starts [OF idle, of "[Points]"] by (simp add: run_system_snoc)
  moreover have "generator_cycles 7 @ generator_cycle = generator_cycles 8"
    using generator_cycles_Suc [of 7] by simp
  moreover have "[0..<8] = [0, 1, 2, 3, 4, 5, 6, 7]" "[0..<7] = [0, 1, 2, 3, 4, 5, 6]"
    by (simp_all add: upt_rec)
  ultimately show ?thesis
    using generator_cycles_history [of 7] generator_cycles_history [of 8] by simp
qed

lemma stuck_step:
  assumes "isGenerating s" "\<not> isSurveyOpen_generator s"
  shows "isGenerating (system_step s e) \<and> \<not> isSurveyOpen_generator (system_step s e)"
proof (cases e)
  case (SAASubmit v l)
  then show ?thesis
    using assms
    by (simp add: handleSAASubmit_def handleCompleteTimelineDataPush_def
        advanceTimelinePoint_def Let_def)
qed (use assms in \<open>simp_all add: logAction_fields startSaveFlow_def handleSurveySubmit_def
      handleCancel_def generateEventBlock_def\<close>)

lemma stuck_forever:
  assumes "isGenerating s" "\<not> isSurveyOpen_generator s"
  shows "isGenerating (foldl system_step s events)
       \<and> \<not> isSurveyOpen_generator (foldl system_step s events)"
proof (induction events rule: rev_induct)
  case Nil
  show ?case using assms by simp
next
  case (snoc e events)
  then show ?case by (simp add: stuck_step)
qed

text \<open>
  C5 at its failing input. The generator's survey is open after Generate; Cancel closes
  it and leaves the history empty, but \<open>isGenerating\<close> stays set: it is set after
  every later sequence of events, and pressing Generate again changes nothing.
\<close>

theorem generator_cancel_stuck:
  "isSurveyOpen_generator (run_system [GenerateEventBlock [Points, Assists, Rebounds]])
   \<and> timelineEvents
        (run_system [GenerateEventBlock [Points, Assists, Rebounds], GeneratorSurveyCancel]) = []
   \<and> isGenerating
        (run_system ([GenerateEventBlock [Points, Assists, Rebounds], GeneratorSurveyCancel]
           @ events))
   \<and> \<not> isSurveyOpen_generator
        (run_system ([GenerateEventBlock [Points, Assists, Rebounds], GeneratorSurveyCancel]
           @ events))
   \<and> run_system [GenerateEventBlock [Points, Assists, Rebounds], GeneratorSurveyCancel,
        GenerateEventBlock drawn]
       = run_system [GenerateEventBlock [Points, Assists, Rebounds], GeneratorSurveyCancel]"
proof -
  let ?s = "run_system [GenerateEventBlock [Points, Assists, Rebounds], GeneratorSurveyCancel]"
  have idle: "\<not> isGenerating initialSystemState" by (simp add: initialSystemState_def)
  have one: "run_system [GenerateEventBlock [Points, Assists, Rebounds]]
               = generateEventBlock [Points, Assists, Rebounds] initialSystemState"
    by (simp add: run_system_def)
  have started: "isGenerating (run_system [GenerateEventBlock [Points, Assists, Rebounds]])"
    "isSurveyOpen_generator (run_system [GenerateEventBlock [Points, Assists, Rebounds]])"
    using generateEventBlock_starts [OF idle, of "[Points, Assists, Rebounds]"]
    by (simp_all only: one)
  have two: "?s = closeSurvey_generator (run_system [GenerateEventBlock [Points, Assists, Rebounds]])"
    using started(2) run_system_snoc [of "[GenerateEventBlock [Points, Assists, Rebounds]]" GeneratorSurveyCancel]
    by simp
  have s: "isGenerating ?s" "\<not> isSurveyOpen_generator ?s" "timelineEvents ?s = []"
    using started
    by (simp_all add: two closeSurvey_generator_def one generateEventBlock_fields
        initialSystemState_def)
  have "run_system [GenerateEventBlock [Points, Assists, Rebounds], GeneratorSurveyCancel,
        GenerateEventBlock drawn] = system_step ?s (GenerateEventBlock drawn)"
    using run_system_snoc [of "[GenerateEventBlock [Points, Assists, Rebounds], GeneratorSurveyCancel]"
        "GenerateEventBlock drawn"] by simp
  then have again: "run_system [GenerateEventBlock [Points, Assists, Rebounds],
        GeneratorSurveyCancel, GenerateEventBlock drawn] = ?s"
    using s(1) by (simp add: generateEventBlock_def)
  show ?thesis
    using started(2) s(3) again stuck_forever [OF s(1,2), of events]
    by (simp only: run_system_append) simp
qed

text \<open>
  On the path of \<^verbatim>\<open>PlayerPanel\<close> a cancel of either modal closes both, forgets the
  survey, leaves the history and the pointer as they were, and the Save button opens the
  survey again (below timeline point 7).
\<close>

lemma panel_cancel_idle:
  assumes "e = PanelSurveyCancel \<and> isSurveyOpen s \<or> e = SAACancel \<and> isSAAInputOpen s"
  shows "\<not> isSurveyOpen (system_step s e) \<and> \<not> isSAAInputOpen (system_step s e)
       \<and> tempSurveyResponses (system_step s e) = None
       \<and> timelineEvents (system_step s e) = timelineEvents s
       \<and> currentTimelinePoint (system_step s e) = currentTimelinePoint s
       \<and> (currentTimelinePoint s < 7 \<longrightarrow> isSurveyOpen (system_step (system_step s e) SaveStats))"
  using assms by (auto simp: handleCancel_def isSaveDisabled_def startSaveFlow_def)

end
